theory Spec2Isabelle
  imports Complex_Main
begin

section \<open>Pose-driven repetition counting: the data model\<close>

text \<open>
  The development follows \<^verbatim>\<open>workout-storage.ts\<close> (the pose page with push-ups,
  squats and the hand tracker). In the detectors and the scorer a JavaScript
  \<^verbatim>\<open>number\<close> is modelled as a real; the two places where they can produce a value that
  is no real number (an array read past its end, a division of zero by zero) are written
  out with \<open>NaN\<close> below. The angle helper \<^verbatim>\<open>angleDegrees\<close> is modelled in double
  precision, with rounding, infinities and NaN, next to its reading in exact arithmetic,
  which is the one the detectors are built on. A field of type
  \<^verbatim>\<open>number | null\<close> is a \<open>real option\<close>. The landmark array is a partial map from
  indices to landmarks: reading an index that holds nothing gives \<^verbatim>\<open>undefined\<close>, here
  \<open>None\<close>. The field \<^verbatim>\<open>visibility\<close> is read with \<^verbatim>\<open>?? 0\<close> in the source, so it is
  optional as well.
\<close>

record Landmark =
  lm_x :: real
  lm_y :: real
  lm_z :: real
  visibility :: "real option"

type_synonym landmarks = "nat \<Rightarrow> Landmark option"

record FrameFeatures =
  t_sec :: real
  elbowAngle :: "real option"
  hipAngle :: "real option"
  headY :: "real option"
  shoulderY :: "real option"
  hipY :: "real option"

datatype js_number = NaN | Num real

record CompletedRep =
  features :: "FrameFeatures list"
  correctness :: js_number

datatype PushupState = WAITING_FOR_START | AT_TOP | GOING_DOWN | AT_BOTTOM | GOING_UP

datatype SquatState = SQ_WAITING_FOR_START | STANDING | SQ_GOING_DOWN | SQ_AT_BOTTOM | SQ_GOING_UP

text \<open>
  The template loaded from \<^verbatim>\<open>pushup_template.json\<close>: a phase count (a whole number
  here) and, for the elbow and the hip, the arrays of means and standard deviations. Its
  \<^verbatim>\<open>headY\<close> statistics are never read by the scorer and are left out.
\<close>

record pair_stats =
  mean :: "real list"
  std :: "real list"

record PushupTemplate =
  phaseCount :: int
  elbow :: pair_stats
  hip :: pair_stats

datatype Hand = LEFT | RIGHT

text \<open>
  The three browser events of the source, each with the fields of its \<^verbatim>\<open>detail\<close>:
  \<^verbatim>\<open>pushupCompleted {score, repCount, timestamp}\<close>,
  \<^verbatim>\<open>squatCompleted {repCount, timestamp}\<close> and
  \<^verbatim>\<open>handYUpdate {hand, y, timestamp}\<close>.
\<close>

datatype event =
  PushupCompleted js_number nat int
| SquatCompleted nat int
| HandYUpdate Hand real int

datatype error = TypeError

subsection \<open>Landmark indices and thresholds\<close>

abbreviation (input) NOSE :: nat where "NOSE \<equiv> 0"
abbreviation (input) L_SHOULDER :: nat where "L_SHOULDER \<equiv> 11"
abbreviation (input) L_ELBOW :: nat where "L_ELBOW \<equiv> 13"
abbreviation (input) L_WRIST :: nat where "L_WRIST \<equiv> 15"
abbreviation (input) L_HIP :: nat where "L_HIP \<equiv> 23"
abbreviation (input) L_KNEE :: nat where "L_KNEE \<equiv> 25"
abbreviation (input) L_ANKLE :: nat where "L_ANKLE \<equiv> 27"
abbreviation (input) R_SHOULDER :: nat where "R_SHOULDER \<equiv> 12"
abbreviation (input) R_ELBOW :: nat where "R_ELBOW \<equiv> 14"
abbreviation (input) R_WRIST :: nat where "R_WRIST \<equiv> 16"
abbreviation (input) R_HIP :: nat where "R_HIP \<equiv> 24"
abbreviation (input) R_KNEE :: nat where "R_KNEE \<equiv> 26"
abbreviation (input) R_ANKLE :: nat where "R_ANKLE \<equiv> 28"

abbreviation (input) ELBOW_TOP_ANGLE :: real where "ELBOW_TOP_ANGLE \<equiv> 160"
abbreviation (input) ELBOW_BOTTOM_ANGLE :: real where "ELBOW_BOTTOM_ANGLE \<equiv> 90"
abbreviation (input) MIN_ANGLE_DELTA :: real where "MIN_ANGLE_DELTA \<equiv> 40"
abbreviation (input) HIP_STRAIGHT_ANGLE :: real where "HIP_STRAIGHT_ANGLE \<equiv> 150"
abbreviation (input) MIN_VIS_BODY :: real where "MIN_VIS_BODY \<equiv> 0.4"
abbreviation (input) HORIZONTAL_BODY_MAX_DELTA_Y :: real where "HORIZONTAL_BODY_MAX_DELTA_Y \<equiv> 0.3"
abbreviation (input) START_TOP_STREAK :: nat where "START_TOP_STREAK \<equiv> 3"
abbreviation (input) MIN_VALID_FRAMES_PER_REP :: nat where "MIN_VALID_FRAMES_PER_REP \<equiv> 6"
abbreviation (input) BOTTOM_ANGLE_MARGIN :: real where "BOTTOM_ANGLE_MARGIN \<equiv> 10"
abbreviation (input) SQUAT_KNEE_TOP_ANGLE :: real where "SQUAT_KNEE_TOP_ANGLE \<equiv> 165"
abbreviation (input) SQUAT_KNEE_BOTTOM_ANGLE :: real where "SQUAT_KNEE_BOTTOM_ANGLE \<equiv> 100"
abbreviation (input) SQUAT_MIN_ANGLE_DELTA :: real where "SQUAT_MIN_ANGLE_DELTA \<equiv> 35"
abbreviation (input) SQUAT_MIN_VALID_FRAMES :: nat where "SQUAT_MIN_VALID_FRAMES \<equiv> 6"

section \<open>Small helpers\<close>

text \<open>\<^verbatim>\<open>Math.hypot(x, y)\<close>.\<close>

definition hypot :: "real \<Rightarrow> real \<Rightarrow> real" where
  "hypot a b = sqrt (a * a + b * b)"

subsection \<open>Double-precision arithmetic\<close>

text \<open>
  A double is NaN, an infinity or a real number. Zeros carry no sign: the only zero
  divisor of \<^verbatim>\<open>angleDegrees\<close> is a product of two magnitudes, which is never negative.
  \<open>toDouble\<close> rounds a real to the nearest double, ties to even: the spacing of the
  doubles around \<open>x\<close> is \<open>quantum x\<close> (\<open>2\<close> to the power \<open>e - 52\<close> for the binary exponent
  \<open>e\<close> of \<open>x\<close>, and \<open>2\<close> to the power \<open>-1074\<close> below the normal range), and a result of
  magnitude \<open>2\<close> to the power \<open>1024\<close> is an infinity.
\<close>

datatype double = DNaN | PosInf | NegInf | Fin real

definition roundEven :: "real \<Rightarrow> int" where
  "roundEven y =
     (let n = \<lfloor>y\<rfloor>; d = y - of_int n
      in if d < 1 / 2 then n else if d > 1 / 2 then n + 1 else if even n then n else n + 1)"

definition quantum :: "real \<Rightarrow> real" where
  "quantum x = 2 powr (of_int (max (- 1022) \<lfloor>log 2 \<bar>x\<bar>\<rfloor>) - 52)"

definition toDouble :: "real \<Rightarrow> double" where
  "toDouble x =
     (if x = 0 then Fin 0
      else (let r = quantum x * of_int (roundEven (x / quantum x))
            in if r \<ge> 2 ^ 1024 then PosInf
               else if r \<le> - (2 ^ 1024) then NegInf
               else Fin r))"

text \<open>
  The operations of \<^verbatim>\<open>angleDegrees\<close> on doubles: the exact result, rounded by \<open>rd\<close>,
  with the special cases of IEEE 754 and of \<^verbatim>\<open>Math.hypot\<close>, \<^verbatim>\<open>Math.min\<close>,
  \<^verbatim>\<open>Math.max\<close> and \<^verbatim>\<open>Math.acos\<close>. The rounding is an argument, so that the same text
  can be read with \<open>toDouble\<close> and with no rounding at all. \<^verbatim>\<open>Math.hypot\<close> and
  \<^verbatim>\<open>Math.acos\<close> are taken as correctly rounded.
\<close>

fun d_add :: "(real \<Rightarrow> double) \<Rightarrow> double \<Rightarrow> double \<Rightarrow> double" where
  "d_add rd (Fin a) (Fin b) = rd (a + b)"
| "d_add rd DNaN y = DNaN"
| "d_add rd x DNaN = DNaN"
| "d_add rd PosInf NegInf = DNaN"
| "d_add rd NegInf PosInf = DNaN"
| "d_add rd PosInf y = PosInf"
| "d_add rd NegInf y = NegInf"
| "d_add rd (Fin a) y = y"

fun d_sub :: "(real \<Rightarrow> double) \<Rightarrow> double \<Rightarrow> double \<Rightarrow> double" where
  "d_sub rd (Fin a) (Fin b) = rd (a - b)"
| "d_sub rd DNaN y = DNaN"
| "d_sub rd x DNaN = DNaN"
| "d_sub rd PosInf PosInf = DNaN"
| "d_sub rd NegInf NegInf = DNaN"
| "d_sub rd PosInf y = PosInf"
| "d_sub rd NegInf y = NegInf"
| "d_sub rd (Fin a) PosInf = NegInf"
| "d_sub rd (Fin a) NegInf = PosInf"

definition signedInf :: "bool \<Rightarrow> double" where
  "signedInf positive = (if positive then PosInf else NegInf)"

fun d_mul :: "(real \<Rightarrow> double) \<Rightarrow> double \<Rightarrow> double \<Rightarrow> double" where
  "d_mul rd (Fin a) (Fin b) = rd (a * b)"
| "d_mul rd DNaN y = DNaN"
| "d_mul rd x DNaN = DNaN"
| "d_mul rd PosInf (Fin b) = (if b = 0 then DNaN else signedInf (0 < b))"
| "d_mul rd NegInf (Fin b) = (if b = 0 then DNaN else signedInf (b < 0))"
| "d_mul rd (Fin a) PosInf = (if a = 0 then DNaN else signedInf (0 < a))"
| "d_mul rd (Fin a) NegInf = (if a = 0 then DNaN else signedInf (a < 0))"
| "d_mul rd PosInf PosInf = PosInf"
| "d_mul rd NegInf NegInf = PosInf"
| "d_mul rd PosInf NegInf = NegInf"
| "d_mul rd NegInf PosInf = NegInf"

fun d_div :: "(real \<Rightarrow> double) \<Rightarrow> double \<Rightarrow> double \<Rightarrow> double" where
  "d_div rd (Fin a) (Fin b) =
     (if b = 0 then (if a = 0 then DNaN else signedInf (0 < a)) else rd (a / b))"
| "d_div rd DNaN y = DNaN"
| "d_div rd x DNaN = DNaN"
| "d_div rd (Fin a) y = Fin 0"
| "d_div rd PosInf (Fin b) = signedInf (0 \<le> b)"
| "d_div rd NegInf (Fin b) = signedInf (b < 0)"
| "d_div rd x y = DNaN"

fun d_hypot :: "(real \<Rightarrow> double) \<Rightarrow> double \<Rightarrow> double \<Rightarrow> double" where
  "d_hypot rd (Fin a) (Fin b) = rd (sqrt (a * a + b * b))"
| "d_hypot rd PosInf y = PosInf"
| "d_hypot rd NegInf y = PosInf"
| "d_hypot rd x PosInf = PosInf"
| "d_hypot rd x NegInf = PosInf"
| "d_hypot rd x y = DNaN"

fun d_min :: "double \<Rightarrow> double \<Rightarrow> double" where
  "d_min (Fin a) (Fin b) = Fin (min a b)"
| "d_min DNaN y = DNaN"
| "d_min x DNaN = DNaN"
| "d_min NegInf y = NegInf"
| "d_min x NegInf = NegInf"
| "d_min PosInf y = y"
| "d_min x PosInf = x"

fun d_max :: "double \<Rightarrow> double \<Rightarrow> double" where
  "d_max (Fin a) (Fin b) = Fin (max a b)"
| "d_max DNaN y = DNaN"
| "d_max x DNaN = DNaN"
| "d_max PosInf y = PosInf"
| "d_max x PosInf = PosInf"
| "d_max NegInf y = y"
| "d_max x NegInf = x"

fun d_acos :: "(real \<Rightarrow> double) \<Rightarrow> double \<Rightarrow> double" where
  "d_acos rd (Fin a) = (if - 1 \<le> a \<and> a \<le> 1 then rd (arccos a) else DNaN)"
| "d_acos rd x = DNaN"

subsection \<open>The three-point angle\<close>

text \<open>
  \<^verbatim>\<open>angleDegrees(a, b, c)\<close>: the angle at \<open>b\<close>, from the x and y coordinates only,
  operation by operation; \<^verbatim>\<open>Math.PI\<close> is the double nearest to \<open>pi\<close>. The coordinates of
  a landmark are finite doubles. \<open>angleDegrees\<close> is the function as the program runs it.
\<close>

definition angleDegreesIn ::
  "(real \<Rightarrow> double) \<Rightarrow> Landmark \<Rightarrow> Landmark \<Rightarrow> Landmark \<Rightarrow> double option" where
  "angleDegreesIn rd a b c =
     (let v1x = d_sub rd (Fin (lm_x a)) (Fin (lm_x b));
          v1y = d_sub rd (Fin (lm_y a)) (Fin (lm_y b));
          v2x = d_sub rd (Fin (lm_x c)) (Fin (lm_x b));
          v2y = d_sub rd (Fin (lm_y c)) (Fin (lm_y b));
          dot = d_add rd (d_mul rd v1x v2x) (d_mul rd v1y v2y);
          mag1 = d_hypot rd v1x v1y;
          mag2 = d_hypot rd v2x v2y
      in if mag1 = Fin 0 \<or> mag2 = Fin 0 then None
         else (let cos0 = d_div rd dot (d_mul rd mag1 mag2);
                   cos1 = d_max (Fin (- 1)) (d_min (Fin 1) cos0)
               in Some (d_div rd (d_mul rd (d_acos rd cos1) (Fin 180)) (rd pi))))"

definition angleDegrees :: "Landmark \<Rightarrow> Landmark \<Rightarrow> Landmark \<Rightarrow> double option" where
  "angleDegrees a b c = angleDegreesIn toDouble a b c"

text \<open>
  The same function in exact arithmetic: \<open>angleDegreesIn\<close> with no rounding (lemma
  \<open>angleDegreesIn_exact\<close> below). Here the division is reached only past the guard on the
  two magnitudes, and the result is null or a real number. The detectors below are built
  on this reading.
\<close>

definition angleDegreesExact :: "Landmark \<Rightarrow> Landmark \<Rightarrow> Landmark \<Rightarrow> real option" where
  "angleDegreesExact a b c =
     (let v1x = lm_x a - lm_x b;
          v1y = lm_y a - lm_y b;
          v2x = lm_x c - lm_x b;
          v2y = lm_y c - lm_y b;
          dot = v1x * v2x + v1y * v2y;
          mag1 = hypot v1x v1y;
          mag2 = hypot v2x v2y
      in if mag1 = 0 \<or> mag2 = 0 then None
         else (let cos0 = dot / (mag1 * mag2);
                   cos1 = max (- 1) (min 1 cos0)
               in Some ((arccos cos1 * 180) / pi)))"

text \<open>
  A call of \<^verbatim>\<open>angleDegrees\<close> (in exact arithmetic) on landmarks read from the array: the function reads
  \<^verbatim>\<open>a.x\<close>, \<^verbatim>\<open>b.x\<close>, \<^verbatim>\<open>c.x\<close> at once, so an \<^verbatim>\<open>undefined\<close> argument raises a
  TypeError.
\<close>

definition angleDegrees_of :: "Landmark option \<Rightarrow> Landmark option \<Rightarrow> Landmark option \<Rightarrow> error + real option" where
  "angleDegrees_of a b c =
     (case a of None \<Rightarrow> Inl TypeError
      | Some a' \<Rightarrow> (case b of None \<Rightarrow> Inl TypeError
         | Some b' \<Rightarrow> (case c of None \<Rightarrow> Inl TypeError
            | Some c' \<Rightarrow> Inr (angleDegreesExact a' b' c'))))"

definition avg :: "real option \<Rightarrow> real option \<Rightarrow> real option" where
  "avg a b =
     (case a of
        None \<Rightarrow> (case b of None \<Rightarrow> None | Some b' \<Rightarrow> Some b')
      | Some a' \<Rightarrow> (case b of None \<Rightarrow> Some a' | Some b' \<Rightarrow> Some ((a' + b') / 2)))"

text \<open>
  The visibility loop over the key joints: the sum of \<^verbatim>\<open>j.visibility ?? 0\<close> and the
  count, over the joints that are present; then \<^verbatim>\<open>visCount > 0 ? visSum / visCount : 0\<close>.
\<close>

fun visLoop :: "Landmark option list \<Rightarrow> real \<Rightarrow> nat \<Rightarrow> real \<times> nat" where
  "visLoop [] visSum visCount = (visSum, visCount)"
| "visLoop (None # js) visSum visCount = visLoop js visSum visCount"
| "visLoop (Some j # js) visSum visCount =
     visLoop js (visSum + (case visibility j of None \<Rightarrow> 0 | Some v \<Rightarrow> v)) (Suc visCount)"

definition avgVis :: "Landmark option list \<Rightarrow> real" where
  "avgVis keyJoints =
     (case visLoop keyJoints 0 0 of (visSum, visCount) \<Rightarrow>
        if visCount > 0 then visSum / real visCount else 0)"

definition pushupKeyJoints :: "landmarks \<Rightarrow> Landmark option list" where
  "pushupKeyJoints lms =
     [lms L_SHOULDER, lms L_ELBOW, lms L_WRIST, lms R_SHOULDER, lms R_ELBOW, lms R_WRIST,
      lms L_HIP, lms L_ANKLE, lms R_HIP, lms R_ANKLE]"

section \<open>The feature extractor\<close>

definition extractFrameFeatures :: "landmarks \<Rightarrow> real \<Rightarrow> error + FrameFeatures" where
  "extractFrameFeatures lms t =
     (let lSh = lms L_SHOULDER; lEl = lms L_ELBOW; lWr = lms L_WRIST;
          rSh = lms R_SHOULDER; rEl = lms R_ELBOW; rWr = lms R_WRIST;
          lHip = lms L_HIP; lAnk = lms L_ANKLE; rHip = lms R_HIP; rAnk = lms R_ANKLE;
          nose = lms NOSE;
          jointsVisibleEnough = (avgVis (pushupKeyJoints lms) \<ge> MIN_VIS_BODY);
          sY = avg (map_option lm_y lSh) (map_option lm_y rSh);
          hY = avg (map_option lm_y lHip) (map_option lm_y rHip);
          hdY = map_option lm_y nose
      in if \<not> jointsVisibleEnough then
           Inr \<lparr>t_sec = t, elbowAngle = None, hipAngle = None,
                headY = hdY, shoulderY = sY, hipY = hY\<rparr>
         else
           (case angleDegrees_of lSh lEl lWr of Inl e \<Rightarrow> Inl e | Inr leftElbow \<Rightarrow>
           (case angleDegrees_of rSh rEl rWr of Inl e \<Rightarrow> Inl e | Inr rightElbow \<Rightarrow>
           (case angleDegrees_of lSh lHip lAnk of Inl e \<Rightarrow> Inl e | Inr leftHip \<Rightarrow>
           (case angleDegrees_of rSh rHip rAnk of Inl e \<Rightarrow> Inl e | Inr rightHip \<Rightarrow>
              Inr \<lparr>t_sec = t, elbowAngle = avg leftElbow rightElbow,
                   hipAngle = avg leftHip rightHip,
                   headY = hdY, shoulderY = sY, hipY = hY\<rparr>)))))"

section \<open>Push-ups: validator and scorer\<close>

text \<open>\<^verbatim>\<open>xs.filter((v) => v != null)\<close> on an array of nullable numbers.\<close>

fun nonNull :: "real option list \<Rightarrow> real list" where
  "nonNull [] = []"
| "nonNull (None # vs) = nonNull vs"
| "nonNull (Some v # vs) = v # nonNull vs"

definition elbowAngles :: "FrameFeatures list \<Rightarrow> real list" where
  "elbowAngles fs = nonNull (map elbowAngle fs)"

definition hipAngles :: "FrameFeatures list \<Rightarrow> real list" where
  "hipAngles fs = nonNull (map hipAngle fs)"

text \<open>
  \<^verbatim>\<open>repIsValid\<close>. \<^verbatim>\<open>Math.min(...xs)\<close> and \<^verbatim>\<open>Math.max(...xs)\<close> are reached only
  past the check that the array is not empty; they fold \<open>min\<close> and \<open>max\<close> over it.
\<close>

definition repIsValid :: "FrameFeatures list \<Rightarrow> bool" where
  "repIsValid fs =
     (case elbowAngles fs of
        [] \<Rightarrow> False
      | e # es \<Rightarrow>
          if length (e # es) < MIN_VALID_FRAMES_PER_REP then False
          else (let minElbow = fold min es e;
                    maxElbow = fold max es e;
                    elbowRange = maxElbow - minElbow
                in if elbowRange < MIN_ANGLE_DELTA then False
                   else (let reachedBottom = (minElbow \<le> ELBOW_BOTTOM_ANGLE + BOTTOM_ANGLE_MARGIN)
                         in if \<not> reachedBottom then False else True)))"

subsection \<open>Template scoring\<close>

record phase =
  ph_elbow :: real
  ph_hip :: real

text \<open>The inner loop of \<^verbatim>\<open>resampleRep\<close>: the frame nearest in time to \<open>targetT\<close>.\<close>

fun nearestLoop :: "real \<Rightarrow> FrameFeatures list \<Rightarrow> FrameFeatures \<Rightarrow> real \<Rightarrow> FrameFeatures" where
  "nearestLoop targetT [] best bestDt = best"
| "nearestLoop targetT (f # fs) best bestDt =
     (let dt = \<bar>t_sec f - targetT\<bar>
      in if dt < bestDt then nearestLoop targetT fs f dt
         else nearestLoop targetT fs best bestDt)"

text \<open>
  With \<open>phaseCount = 1\<close> the target phase is \<^verbatim>\<open>0 / 0\<close>, so \<open>targetT\<close> is NaN, every
  comparison \<^verbatim>\<open>dt < bestDt\<close> is false and the first frame stays the best one.
\<close>

definition nearest :: "js_number \<Rightarrow> FrameFeatures \<Rightarrow> FrameFeatures list \<Rightarrow> FrameFeatures" where
  "nearest targetT f0 fs =
     (case targetT of NaN \<Rightarrow> f0 | Num tt \<Rightarrow> nearestLoop tt fs f0 \<bar>t_sec f0 - tt\<bar>)"

definition resampleRep :: "FrameFeatures list \<Rightarrow> int \<Rightarrow> phase list" where
  "resampleRep fs phaseCnt =
     (case fs of
        [] \<Rightarrow> []
      | f0 # _ \<Rightarrow>
          (let t0 = t_sec f0;
               t1 = t_sec (last fs);
               duration = (if t1 - t0 = 0 then 1 else t1 - t0)
           in map (\<lambda>i.
                 let targetT = (if phaseCnt - 1 = 0 then NaN
                                else Num (t0 + (real i / real_of_int (phaseCnt - 1)) * duration));
                     best = nearest targetT f0 fs
                 in \<lparr>ph_elbow = (case elbowAngle best of None \<Rightarrow> 0 | Some v \<Rightarrow> v),
                     ph_hip = (case hipAngle best of None \<Rightarrow> 0 | Some v \<Rightarrow> v)\<rparr>)
               [0 ..< nat phaseCnt]))"

text \<open>
  One z-score of the scoring loop: \<^verbatim>\<open>Math.abs(v - mean[i]) / (std[i] || 1)\<close>. A read of
  \<^verbatim>\<open>mean[i]\<close> past the end of the array is \<^verbatim>\<open>undefined\<close> and the arithmetic gives
  NaN; a missing or zero \<^verbatim>\<open>std[i]\<close> is replaced by 1.
\<close>

definition zscore :: "real \<Rightarrow> pair_stats \<Rightarrow> nat \<Rightarrow> js_number" where
  "zscore v st i =
     (if i < length (mean st)
      then (let m = mean st ! i;
                s = (if i < length (std st) \<and> std st ! i \<noteq> 0 then std st ! i else 1)
            in Num (\<bar>v - m\<bar> / s))
      else NaN)"

fun js_add :: "js_number \<Rightarrow> js_number \<Rightarrow> js_number" where
  "js_add (Num a) (Num b) = Num (a + b)"
| "js_add _ _ = NaN"

text \<open>The accumulation \<^verbatim>\<open>totalZ += zE + zH\<close> over the phases, from index \<open>i\<close> on.\<close>

fun zLoop :: "PushupTemplate \<Rightarrow> phase list \<Rightarrow> nat \<Rightarrow> js_number \<Rightarrow> js_number" where
  "zLoop tm [] i totalZ = totalZ"
| "zLoop tm (rep # reps) i totalZ =
     zLoop tm reps (Suc i)
       (js_add totalZ (js_add (zscore (ph_elbow rep) (elbow tm) i) (zscore (ph_hip rep) (hip tm) i)))"

text \<open>
  \<^verbatim>\<open>Math.max(0, Math.min(100, raw))\<close> after \<^verbatim>\<open>avgZ = totalZ / count\<close>: with no phase
  the quotient is \<^verbatim>\<open>0 / 0\<close>, and NaN passes through \<^verbatim>\<open>Math.min\<close> and \<^verbatim>\<open>Math.max\<close>.
\<close>

definition percentOf :: "js_number \<Rightarrow> nat \<Rightarrow> js_number" where
  "percentOf totalZ count =
     (case totalZ of
        NaN \<Rightarrow> NaN
      | Num z \<Rightarrow> if count = 0 then NaN
                 else (let avgZ = z / real count; raw = 100 - 10 * avgZ
                       in Num (max 0 (min 100 raw))))"

definition scoreRep :: "PushupTemplate option \<Rightarrow> FrameFeatures list \<Rightarrow> js_number" where
  "scoreRep pushupTemplate fs =
     (case pushupTemplate of
        Some tm \<Rightarrow>
          (let repPhases = resampleRep fs (phaseCount tm)
           in if int (length repPhases) \<noteq> phaseCount tm then Num 0
              else percentOf (zLoop tm repPhases 0 (Num 0)) (2 * length repPhases))
      | None \<Rightarrow>
          (case elbowAngles fs of
             [] \<Rightarrow> Num 0
           | e # es \<Rightarrow>
               (case hipAngles fs of
                  [] \<Rightarrow> Num 0
                | h # hs \<Rightarrow>
                    (let minElbow = fold min es e;
                         maxElbow = fold max es e;
                         elbowRange = maxElbow - minElbow;
                         maxHip = fold max hs h;
                         rangeScore = max 0 (min 1 (elbowRange / 80));
                         rangePoints = rangeScore * 70;
                         hipScore = max 0 (min 1 ((maxHip - 140) / 40));
                         hipPoints = hipScore * 30
                     in Num (max 0 (min 100 (rangePoints + hipPoints)))))))"

section \<open>The state of the page\<close>

text \<open>
  The refs of the component that the detectors read and write. The refs and React state
  that are only written for display (\<^verbatim>\<open>lastStateRef\<close>, \<^verbatim>\<open>baselineHeadYRef\<close>, the
  labels and \<^verbatim>\<open>uiRepCount\<close>) never reach a branch condition and are left out.
  Each function below returns the updated refs and the events it dispatched. The
  dispatches are guarded by \<^verbatim>\<open>typeof window !== "undefined"\<close>, which holds in the
  browser, where the frame loop runs. \<^verbatim>\<open>Date.now()\<close> is the argument \<open>now\<close>.
\<close>

record refs =
  pushupStateRef :: PushupState
  currentRepRef :: "FrameFeatures list"
  completedRepsRef :: "CompletedRep list"
  topStreakRef :: nat
  squatStateRef :: SquatState
  squatCurrentRepAnglesRef :: "real list"
  squatTopStreakRef :: nat

definition initialRefs :: refs where
  "initialRefs =
     \<lparr>pushupStateRef = WAITING_FOR_START, currentRepRef = [], completedRepsRef = [],
      topStreakRef = 0, squatStateRef = SQ_WAITING_FOR_START,
      squatCurrentRepAnglesRef = [], squatTopStreakRef = 0\<rparr>"

section \<open>The push-up state machine\<close>

text \<open>The \<^verbatim>\<open>switch (state)\<close> of \<^verbatim>\<open>updatePushupState\<close>, reached past the three gates.\<close>

definition pushupSwitch ::
  "PushupTemplate option \<Rightarrow> int \<Rightarrow> refs \<Rightarrow> FrameFeatures \<Rightarrow> real \<Rightarrow> real \<Rightarrow> refs \<times> event list" where
  "pushupSwitch pushupTemplate now r f ea ha =
     (let atTop = (ea \<ge> ELBOW_TOP_ANGLE \<and> ha \<ge> HIP_STRAIGHT_ANGLE);
          atBottom = (ea \<le> ELBOW_BOTTOM_ANGLE)
      in case pushupStateRef r of
           WAITING_FOR_START \<Rightarrow>
             if atTop then
               (let r1 = r\<lparr>topStreakRef := topStreakRef r + 1\<rparr>
                in if topStreakRef r1 \<ge> START_TOP_STREAK
                   then (r1\<lparr>pushupStateRef := AT_TOP, currentRepRef := [f]\<rparr>, [])
                   else (r1, []))
             else (r\<lparr>topStreakRef := 0\<rparr>, [])
         | AT_TOP \<Rightarrow>
             (let r1 = r\<lparr>currentRepRef := currentRepRef r @ [f]\<rparr>
              in if \<not> atTop \<and> ea < ELBOW_TOP_ANGLE - 5
                 then (r1\<lparr>pushupStateRef := GOING_DOWN\<rparr>, [])
                 else (r1, []))
         | GOING_DOWN \<Rightarrow>
             (let r1 = r\<lparr>currentRepRef := currentRepRef r @ [f]\<rparr>
              in if atBottom then (r1\<lparr>pushupStateRef := AT_BOTTOM\<rparr>, [])
                 else if atTop then (r1\<lparr>pushupStateRef := AT_TOP, currentRepRef := [f]\<rparr>, [])
                 else (r1, []))
         | AT_BOTTOM \<Rightarrow>
             (let r1 = r\<lparr>currentRepRef := currentRepRef r @ [f]\<rparr>
              in if \<not> atBottom \<and> ea > ELBOW_BOTTOM_ANGLE + 5
                 then (r1\<lparr>pushupStateRef := GOING_UP\<rparr>, [])
                 else (r1, []))
         | GOING_UP \<Rightarrow>
             (let r1 = r\<lparr>currentRepRef := currentRepRef r @ [f]\<rparr>
              in if atTop then
                   (let repFeatures = currentRepRef r1
                    in if repIsValid repFeatures then
                         (let score = scoreRep pushupTemplate repFeatures;
                              r2 = r1\<lparr>completedRepsRef := completedRepsRef r1 @
                                     [\<lparr>features = repFeatures, correctness = score\<rparr>]\<rparr>;
                              repCount = length (completedRepsRef r2)
                          in (r2\<lparr>pushupStateRef := AT_TOP, currentRepRef := [f]\<rparr>,
                              [PushupCompleted score repCount now]))
                       else (r1\<lparr>pushupStateRef := AT_TOP, currentRepRef := [f]\<rparr>, []))
                 else (r1, [])))"

definition updatePushupState ::
  "PushupTemplate option \<Rightarrow> int \<Rightarrow> refs \<Rightarrow> FrameFeatures \<Rightarrow> refs \<times> event list" where
  "updatePushupState pushupTemplate now r f =
     (let state = pushupStateRef r
      in case elbowAngle f of
           None \<Rightarrow> (if state = WAITING_FOR_START then (r\<lparr>topStreakRef := 0\<rparr>, []) else (r, []))
         | Some ea \<Rightarrow>
        (case hipAngle f of
           None \<Rightarrow> (if state = WAITING_FOR_START then (r\<lparr>topStreakRef := 0\<rparr>, []) else (r, []))
         | Some ha \<Rightarrow>
        (case shoulderY f of
           None \<Rightarrow> (r, [])
         | Some sy \<Rightarrow>
        (case hipY f of
           None \<Rightarrow> (r, [])
         | Some hy \<Rightarrow>
             (let bodyDeltaY = \<bar>sy - hy\<bar>;
                  bodyIsHorizontal = (bodyDeltaY \<le> HORIZONTAL_BODY_MAX_DELTA_Y)
              in if \<not> bodyIsHorizontal then
                   (if state \<noteq> WAITING_FOR_START
                    then (r\<lparr>pushupStateRef := WAITING_FOR_START, currentRepRef := [],
                            topStreakRef := 0\<rparr>, [])
                    else (r, []))
                 else pushupSwitch pushupTemplate now r f ea ha)))))"

text \<open>
  The frame loop in push-up mode: one call per frame, each with its own clock reading.
  The events of all frames are collected in order.
\<close>

fun pushupRun ::
  "PushupTemplate option \<Rightarrow> refs \<Rightarrow> (int \<times> FrameFeatures) list \<Rightarrow> refs \<times> event list" where
  "pushupRun pushupTemplate r [] = (r, [])"
| "pushupRun pushupTemplate r ((now, f) # rest) =
     (case updatePushupState pushupTemplate now r f of (r1, evs1) \<Rightarrow>
        (case pushupRun pushupTemplate r1 rest of (r2, evs2) \<Rightarrow> (r2, evs1 @ evs2)))"

section \<open>The squat state machine\<close>

definition squatKeyJoints :: "landmarks \<Rightarrow> Landmark option list" where
  "squatKeyJoints lms = [lms L_HIP, lms R_HIP, lms L_KNEE, lms R_KNEE, lms L_ANKLE, lms R_ANKLE]"

text \<open>\<^verbatim>\<open>a && b && c ? angleDegrees(a, b, c) : null\<close>.\<close>

definition guardedAngle :: "Landmark option \<Rightarrow> Landmark option \<Rightarrow> Landmark option \<Rightarrow> real option" where
  "guardedAngle a b c =
     (case a of None \<Rightarrow> None
      | Some a' \<Rightarrow> (case b of None \<Rightarrow> None
         | Some b' \<Rightarrow> (case c of None \<Rightarrow> None
            | Some c' \<Rightarrow> angleDegreesExact a' b' c')))"

definition squatKneeAngle :: "landmarks \<Rightarrow> real option" where
  "squatKneeAngle lms =
     (let leftKneeAngle = guardedAngle (lms L_HIP) (lms L_KNEE) (lms L_ANKLE);
          rightKneeAngle = guardedAngle (lms R_HIP) (lms R_KNEE) (lms R_ANKLE)
      in case leftKneeAngle of
           Some l \<Rightarrow> (case rightKneeAngle of Some rr \<Rightarrow> Some ((l + rr) / 2) | None \<Rightarrow> Some l)
         | None \<Rightarrow> (case rightKneeAngle of Some rr \<Rightarrow> Some rr | None \<Rightarrow> None))"

text \<open>
  The acceptance test of a closed squat cycle, on the copy \<^verbatim>\<open>angles\<close> of the buffer.
  The length check comes first, so the minimum and maximum are of a non-empty array.
\<close>

definition squatAccepted :: "real list \<Rightarrow> bool" where
  "squatAccepted angles =
     (if length angles \<ge> SQUAT_MIN_VALID_FRAMES then
        (case angles of
           [] \<Rightarrow> False
         | a # as \<Rightarrow>
             (let minKnee = fold min as a;
                  maxKnee = fold max as a;
                  range = maxKnee - minKnee;
                  reachedBottom = (minKnee \<le> SQUAT_KNEE_BOTTOM_ANGLE + 5 \<and> range \<ge> SQUAT_MIN_ANGLE_DELTA)
              in reachedBottom))
      else False)"

definition squatSwitch :: "int \<Rightarrow> refs \<Rightarrow> real \<Rightarrow> refs \<times> event list" where
  "squatSwitch now r kneeAngle =
     (let atTop = (kneeAngle \<ge> SQUAT_KNEE_TOP_ANGLE);
          atBottom = (kneeAngle \<le> SQUAT_KNEE_BOTTOM_ANGLE)
      in case squatStateRef r of
           SQ_WAITING_FOR_START \<Rightarrow>
             if atTop then
               (let r1 = r\<lparr>squatTopStreakRef := squatTopStreakRef r + 1\<rparr>
                in if squatTopStreakRef r1 \<ge> START_TOP_STREAK
                   then (r1\<lparr>squatStateRef := STANDING, squatCurrentRepAnglesRef := [kneeAngle]\<rparr>, [])
                   else (r1, []))
             else (r\<lparr>squatTopStreakRef := 0\<rparr>, [])
         | STANDING \<Rightarrow>
             (let r1 = r\<lparr>squatCurrentRepAnglesRef := squatCurrentRepAnglesRef r @ [kneeAngle]\<rparr>
              in if \<not> atTop \<and> kneeAngle < SQUAT_KNEE_TOP_ANGLE - 5
                 then (r1\<lparr>squatStateRef := SQ_GOING_DOWN\<rparr>, [])
                 else (r1, []))
         | SQ_GOING_DOWN \<Rightarrow>
             (let r1 = r\<lparr>squatCurrentRepAnglesRef := squatCurrentRepAnglesRef r @ [kneeAngle]\<rparr>
              in if atBottom then (r1\<lparr>squatStateRef := SQ_AT_BOTTOM\<rparr>, [])
                 else if atTop
                 then (r1\<lparr>squatStateRef := STANDING, squatCurrentRepAnglesRef := [kneeAngle]\<rparr>, [])
                 else (r1, []))
         | SQ_AT_BOTTOM \<Rightarrow>
             (let r1 = r\<lparr>squatCurrentRepAnglesRef := squatCurrentRepAnglesRef r @ [kneeAngle]\<rparr>
              in if \<not> atBottom \<and> kneeAngle > SQUAT_KNEE_BOTTOM_ANGLE + 5
                 then (r1\<lparr>squatStateRef := SQ_GOING_UP\<rparr>, [])
                 else (r1, []))
         | SQ_GOING_UP \<Rightarrow>
             (let r1 = r\<lparr>squatCurrentRepAnglesRef := squatCurrentRepAnglesRef r @ [kneeAngle]\<rparr>
              in if atTop then
                   (let angles = squatCurrentRepAnglesRef r1
                    in if squatAccepted angles then
                         (let r2 = r1\<lparr>completedRepsRef := completedRepsRef r1 @
                                     [\<lparr>features = [], correctness = Num 100\<rparr>]\<rparr>;
                              repCount = length (completedRepsRef r2)
                          in (r2\<lparr>squatStateRef := STANDING, squatCurrentRepAnglesRef := [kneeAngle]\<rparr>,
                              [SquatCompleted repCount now]))
                       else (r1\<lparr>squatStateRef := STANDING, squatCurrentRepAnglesRef := [kneeAngle]\<rparr>, []))
                 else (r1, [])))"

definition updateSquatState :: "int \<Rightarrow> refs \<Rightarrow> landmarks \<Rightarrow> real \<Rightarrow> refs \<times> event list" where
  "updateSquatState now r lms t =
     (let state = squatStateRef r
      in if avgVis (squatKeyJoints lms) < MIN_VIS_BODY then
           (if state = SQ_WAITING_FOR_START then (r\<lparr>squatTopStreakRef := 0\<rparr>, []) else (r, []))
         else (case squatKneeAngle lms of
                 None \<Rightarrow> (r, [])
               | Some kneeAngle \<Rightarrow> squatSwitch now r kneeAngle))"

section \<open>The hand tracker\<close>

definition trackHandY :: "int \<Rightarrow> landmarks \<Rightarrow> Hand \<Rightarrow> event list" where
  "trackHandY now lms hand =
     (let wristIndex = (if hand = LEFT then L_WRIST else R_WRIST)
      in case lms wristIndex of
           None \<Rightarrow> []
         | Some wrist \<Rightarrow>
             (let vis = (case visibility wrist of None \<Rightarrow> 0 | Some v \<Rightarrow> v)
              in if vis < MIN_VIS_BODY then []
                 else (let yClamped = max 0 (min 1 (lm_y wrist));
                           yNorm = 1 - yClamped
                       in [HandYUpdate hand yNorm now])))"

section \<open>Concrete inputs\<close>

text \<open>
  Landmarks, frames and states on which the theorems below are run: a landmark at
  \<open>(u, v)\<close> with a given visibility, and a frame with all four gated fields present.
\<close>

definition lmk :: "real \<Rightarrow> real \<Rightarrow> real \<Rightarrow> Landmark" where
  "lmk u v vis = \<lparr>lm_x = u, lm_y = v, lm_z = 0, visibility = Some vis\<rparr>"

definition frame :: "real \<Rightarrow> real \<Rightarrow> real \<Rightarrow> real \<Rightarrow> real \<Rightarrow> FrameFeatures" where
  "frame t ea ha sy hy =
     \<lparr>t_sec = t, elbowAngle = Some ea, hipAngle = Some ha, headY = Some 0.4,
      shoulderY = Some sy, hipY = Some hy\<rparr>"

text \<open>A dim frame: only the nose, the left shoulder and the left hip are reported.\<close>

definition dimFrameLandmarks :: landmarks where
  "dimFrameLandmarks =
     (\<lambda>i. None)(NOSE := Some (lmk 0.5 0.2 0.9), L_SHOULDER := Some (lmk 0.4 0.3 0.1),
        L_HIP := Some (lmk 0.5 0.6 0.2))"

text \<open>Eight frames whose elbow angle only moves between 140 and 170 degrees.\<close>

definition shallowRep :: "FrameFeatures list" where
  "shallowRep =
     [frame 0 170 170 0.5 0.55, frame 0.1 165 170 0.5 0.55, frame 0.2 155 170 0.5 0.55,
      frame 0.3 145 170 0.5 0.55, frame 0.4 140 170 0.5 0.55, frame 0.5 150 170 0.5 0.55,
      frame 0.6 160 170 0.5 0.55, frame 0.7 170 170 0.5 0.55]"

definition raisedHand :: landmarks where
  "raisedHand = (\<lambda>i. None)(R_WRIST := Some (lmk 0.7 0.25 0.9))"

definition loweredHand :: landmarks where
  "loweredHand = (\<lambda>i. None)(R_WRIST := Some (lmk 0.7 1.2 0.8))"

text \<open>
  A landmark at distance \<open>2\<close> to the power \<open>-600\<close> from the origin, on the x axis: the
  distance is a double, its square is below the smallest double.
\<close>

definition tiny :: real where
  "tiny = 2 powr (- 600)"

definition tinyArm :: Landmark where
  "tinyArm = lmk tiny 0 1"

definition originPoint :: Landmark where
  "originPoint = lmk 0 0 1"

text \<open>
  Push-up frames: at the top of a push-up (arms and body straight, lying), standing with
  straight arms (shoulders far above the hips), and a dim frame with positions but no
  angles. Times are in seconds, clock readings in milliseconds.
\<close>

definition topFrame :: "real \<Rightarrow> FrameFeatures" where
  "topFrame t = frame t 170 170 0.5 0.55"

definition standingFrame :: "real \<Rightarrow> FrameFeatures" where
  "standingFrame t = frame t 170 170 0.2 0.8"

definition lowVisFrame :: "real \<Rightarrow> FrameFeatures" where
  "lowVisFrame t =
     \<lparr>t_sec = t, elbowAngle = None, hipAngle = None, headY = Some 0.1,
      shoulderY = Some 0.1, hipY = Some 0.9\<rparr>"

text \<open>
  Three top frames start a repetition; \<open>startedRefs\<close> is the state they lead to. The
  descent goes down to 88 degrees and up again; a last top frame closes the repetition.
  In \<open>interruptedStart\<close> a standing frame comes between the second and the third top
  frame.
\<close>

definition threeTops :: "(int \<times> FrameFeatures) list" where
  "threeTops = [(1000, topFrame 1), (2000, topFrame 2), (3000, topFrame 3)]"

definition startedRefs :: refs where
  "startedRefs =
     initialRefs\<lparr>pushupStateRef := AT_TOP, currentRepRef := [topFrame 3], topStreakRef := 3\<rparr>"

definition descent :: "(int \<times> FrameFeatures) list" where
  "descent =
     [(4000, frame 4 150 170 0.5 0.55), (5000, frame 5 88 165 0.5 0.55),
      (6000, frame 6 130 168 0.5 0.55), (7000, frame 7 140 170 0.5 0.55)]"

definition cleanRep :: "(int \<times> FrameFeatures) list" where
  "cleanRep = threeTops @ descent @ [(8000, topFrame 8)]"

definition interruptedStart :: "(int \<times> FrameFeatures) list" where
  "interruptedStart =
     [(0, topFrame 0), (1000, topFrame 1), (2000, standingFrame 2), (3000, topFrame 3)]"

definition interruptedRep :: "(int \<times> FrameFeatures) list" where
  "interruptedRep = interruptedStart @ descent @ [(8000, topFrame 8)]"

definition goodRep :: "FrameFeatures list" where
  "goodRep = topFrame 3 # map snd descent @ [topFrame 8]"

text \<open>A template with no phase at all.\<close>

definition emptyTemplate :: PushupTemplate where
  "emptyTemplate =
     \<lparr>phaseCount = 0, elbow = \<lparr>mean = [], std = []\<rparr>, hip = \<lparr>mean = [], std = []\<rparr>\<rparr>"

text \<open>
  Squat inputs: the left hip, knee and ankle on one vertical line (a knee angle of 180
  degrees), and two states in \<open>GOING_UP\<close>: one after the knee angles 170 (the frame that
  ended the start debounce), 150, 95, 98, 120 and 150, and one after the quicker 170, 150,
  95 and 120.
\<close>

definition uprightLegs :: landmarks where
  "uprightLegs =
     (\<lambda>i. None)(L_HIP := Some (lmk 0.5 0.2 0.9), L_KNEE := Some (lmk 0.5 0.5 0.9),
        L_ANKLE := Some (lmk 0.5 0.8 0.9))"

definition risingSquat :: refs where
  "risingSquat =
     initialRefs\<lparr>squatStateRef := SQ_GOING_UP,
       squatCurrentRepAnglesRef := [170, 150, 95, 98, 120, 150], squatTopStreakRef := 3\<rparr>"

definition quickSquat :: refs where
  "quickSquat =
     initialRefs\<lparr>squatStateRef := SQ_GOING_UP,
       squatCurrentRepAnglesRef := [170, 150, 95, 120], squatTopStreakRef := 3\<rparr>"


section \<open>Notions of the specification\<close>

text \<open>
  Following the specification's words: a frame qualifies as "at top" when its elbow angle
  is at least 160 degrees and its hip angle at least 150 degrees, in horizontal posture;
  a sequence has three such frames in a row; a frame is fully angled when its elbow angle,
  hip angle, shoulder position and hip position are all present.
\<close>

definition qualifiesAtTop :: "FrameFeatures \<Rightarrow> bool" where
  "qualifiesAtTop f =
     (case elbowAngle f of None \<Rightarrow> False | Some ea \<Rightarrow>
     (case hipAngle f of None \<Rightarrow> False | Some ha \<Rightarrow>
     (case shoulderY f of None \<Rightarrow> False | Some sy \<Rightarrow>
     (case hipY f of None \<Rightarrow> False | Some hy \<Rightarrow>
        ea \<ge> ELBOW_TOP_ANGLE \<and> ha \<ge> HIP_STRAIGHT_ANGLE
        \<and> \<bar>sy - hy\<bar> \<le> HORIZONTAL_BODY_MAX_DELTA_Y))))"

fun threeInARow :: "('a \<Rightarrow> bool) \<Rightarrow> 'a list \<Rightarrow> bool" where
  "threeInARow P (a # b # c # rest) = ((P a \<and> P b \<and> P c) \<or> threeInARow P (b # c # rest))"
| "threeInARow P _ = False"

definition fullyAngled :: "FrameFeatures \<Rightarrow> bool" where
  "fullyAngled f =
     (elbowAngle f \<noteq> None \<and> hipAngle f \<noteq> None \<and> shoulderY f \<noteq> None \<and> hipY f \<noteq> None)"

text \<open>
  The invariant of the push-up buffer: the frames of the buffer in progress and of every
  logged buffer are fully angled.
\<close>

definition bufferInvariant :: "refs \<Rightarrow> bool" where
  "bufferInvariant r =
     (list_all fullyAngled (currentRepRef r)
      \<and> list_all (\<lambda>c. list_all fullyAngled (features c)) (completedRepsRef r))"

section \<open>The three-point angle\<close>

lemma hypot_eq_0_iff: "hypot a b = 0 \<longleftrightarrow> a = 0 \<and> b = 0"
  by (simp add: hypot_def add_nonneg_eq_0_iff)

lemma clamped_arccos_range:
  "0 \<le> (arccos (max (- 1) (min 1 c)) * 180) / pi \<and> (arccos (max (- 1) (min 1 c)) * 180) / pi \<le> 180"
proof -
  let ?c = "max (- 1) (min 1 c)"
  have lo: "- 1 \<le> ?c" and hi: "?c \<le> 1" by simp_all
  have a0: "0 \<le> arccos ?c" using arccos_lbound [OF lo hi] .
  have a1: "arccos ?c \<le> pi" using arccos_ubound [OF lo hi] .
  have "0 \<le> (arccos ?c * 180) / pi" using a0 pi_gt_zero by simp
  moreover have "(arccos ?c * 180) / pi \<le> 180"
    using a1 pi_gt_zero by (simp add: divide_le_eq)
  ultimately show ?thesis by simp
qed

text \<open>
  In exact arithmetic the angle is null exactly when one of the two vectors from \<open>b\<close> has
  zero length, and every angle lies between 0 and 180 degrees.
\<close>

lemma angleDegreesExact_null_or_in_range:
  "(angleDegreesExact a b c = None \<longleftrightarrow>
      (lm_x a = lm_x b \<and> lm_y a = lm_y b) \<or> (lm_x c = lm_x b \<and> lm_y c = lm_y b))
   \<and> (\<forall>d. angleDegreesExact a b c = Some d \<longrightarrow> 0 \<le> d \<and> d \<le> 180)"
  using clamped_arccos_range
  by (auto simp: angleDegreesExact_def Let_def hypot_eq_0_iff)

text \<open>Rounding: zero and the powers of two in range are doubles; tiny powers of two round to zero.\<close>

lemma toDouble_zero: "toDouble 0 = Fin 0"
  by (simp add: toDouble_def)

lemma quantum_powr: "quantum (2 powr of_int k) = 2 powr (of_int (max (- 1022) k) - 52)"
  by (simp add: quantum_def)

lemma toDouble_powr_exact:
  assumes "- 1022 \<le> k" and "k < 1024"
  shows "toDouble (2 powr of_int k) = Fin (2 powr of_int k)"
proof -
  let ?x = "2 powr (of_int k :: real)"
  have q: "quantum ?x = 2 powr (of_int k - 52)" using assms by (simp add: quantum_powr max_def)
  have d: "?x / quantum ?x = 2 powr 52" unfolding q by (simp add: powr_diff [symmetric])
  have r: "roundEven (2 powr 52) = 2 ^ 52" by (simp add: roundEven_def)
  have m: "quantum ?x * of_int (roundEven (?x / quantum ?x)) = ?x"
    unfolding d r unfolding q by (simp add: powr_diff)
  have "of_int k < (1024 :: real)" using assms by simp
  then have "?x < 2 powr 1024" by (rule powr_less_mono) simp
  moreover have "(2 :: real) powr 1024 = 2 ^ 1024" by (subst powr_numeral) simp_all
  ultimately have u: "?x < 2 ^ 1024" by simp
  have "- (2 ^ 1024) < (0 :: real)" by simp
  also have "0 < ?x" by simp
  finally have n: "\<not> ?x \<le> - (2 ^ 1024)" by (simp only: not_le)
  from u have v: "\<not> ?x \<ge> 2 ^ 1024" by (simp only: not_le)
  have z: "?x \<noteq> 0" by simp
  show ?thesis
    unfolding toDouble_def Let_def m by (simp only: n v z if_False)
qed

lemma toDouble_powr_underflow:
  assumes "k < - 1075"
  shows "toDouble (2 powr of_int k) = Fin 0"
proof -
  let ?x = "2 powr (of_int k :: real)"
  have q: "quantum ?x = 2 powr (- 1074)" using assms by (simp add: quantum_powr max_def)
  have d: "?x / quantum ?x = 2 powr (of_int k + 1074)" unfolding q by (simp add: powr_diff [symmetric])
  have "of_int k + 1074 < (- 1 :: real)" using assms by simp
  then have "2 powr (of_int k + 1074) < 2 powr (- 1 :: real)" by (rule powr_less_mono) simp
  moreover have "(2 :: real) powr (- 1) = 1 / 2" by (simp add: powr_minus_divide)
  ultimately have lt: "2 powr (of_int k + 1074) < (1 / 2 :: real)" by simp
  have gt: "0 < 2 powr (of_int k + 1074 :: real)" by simp
  have f: "\<lfloor>2 powr (of_int k + 1074 :: real)\<rfloor> = 0" using lt gt by (simp add: floor_eq_iff)
  have r: "roundEven (2 powr (of_int k + 1074)) = 0" using lt by (simp add: roundEven_def f)
  show ?thesis
    unfolding toDouble_def Let_def d r by simp
qed

lemma tiny_positive: "0 < tiny"
  by (simp add: tiny_def)

lemma toDouble_tiny: "toDouble tiny = Fin tiny"
  using toDouble_powr_exact [of "- 600"] by (simp add: tiny_def)

lemma toDouble_tiny_square: "toDouble (tiny * tiny) = Fin 0"
proof -
  have "tiny * tiny = 2 powr of_int (- 1200)"
    by (simp add: tiny_def powr_add [symmetric])
  then show ?thesis using toDouble_powr_underflow [of "- 1200"] by simp
qed

lemma abs_tiny: "\<bar>tiny\<bar> = tiny"
  using tiny_positive by simp

lemma angleDegreesIn_exact:
  "angleDegreesIn Fin a b c = map_option Fin (angleDegreesExact a b c)"
  by (simp add: angleDegreesIn_def angleDegreesExact_def hypot_def Let_def)

lemma angleDegrees_zero_length:
  "(lm_x a = lm_x b \<and> lm_y a = lm_y b) \<or> (lm_x c = lm_x b \<and> lm_y c = lm_y b) \<Longrightarrow>
   angleDegrees a b c = None"
  by (auto simp: angleDegrees_def angleDegreesIn_def Let_def toDouble_zero)

text \<open>
  Claim C6. The claim says that \<^verbatim>\<open>angleDegrees\<close> returns null when one of the two
  vectors has zero length and otherwise a number in \<open>[0, 180]\<close>, never NaN. The first half
  holds in double precision too (\<open>angleDegrees_zero_length\<close>). The second fails: the guard
  tests each magnitude against zero, but the divisor is their product. For \<open>a = c\<close> at
  distance \<open>2\<close> to the power \<open>-600\<close> from \<open>b\<close>, both magnitudes are non-zero, the dot
  product and the product of the magnitudes underflow to zero, the cosine is
  \<^verbatim>\<open>0 / 0\<close>, and NaN passes the clamp and the arc cosine: the function returns NaN, where
  exact arithmetic gives an angle of 0 degrees.
\<close>

theorem angleDegrees_underflow_not_a_number:
  "hypot (lm_x tinyArm - lm_x originPoint) (lm_y tinyArm - lm_y originPoint) = tiny
   \<and> 0 < tiny
   \<and> angleDegreesExact tinyArm originPoint tinyArm = Some 0
   \<and> angleDegrees tinyArm originPoint tinyArm = Some DNaN"
proof -
  have h: "hypot (lm_x tinyArm - lm_x originPoint) (lm_y tinyArm - lm_y originPoint) = tiny"
    by (simp add: tinyArm_def originPoint_def lmk_def hypot_def abs_tiny)
  have t: "tiny \<noteq> 0" using tiny_positive by simp
  have e: "angleDegreesExact tinyArm originPoint tinyArm = Some 0"
    using t by (simp add: angleDegreesExact_def tinyArm_def originPoint_def lmk_def hypot_def
        abs_tiny Let_def)
  have n: "angleDegrees tinyArm originPoint tinyArm = Some DNaN"
    using t by (simp add: angleDegrees_def angleDegreesIn_def tinyArm_def originPoint_def lmk_def
        toDouble_tiny toDouble_tiny_square toDouble_zero abs_tiny Let_def)
  from h tiny_positive e n show ?thesis by simp
qed

section \<open>The visibility gate of the extractor\<close>

lemma avg_None_iff: "avg a b = None \<longleftrightarrow> a = None \<and> b = None"
  by (cases a; cases b) (simp_all add: avg_def)

text \<open>
  Claim C5. When the mean visibility of the push-up joints that are present is below 0.4,
  the extractor returns a record (it does not fail) whose elbow and hip angles are null,
  while \<open>headY\<close>, \<open>shoulderY\<close> and \<open>hipY\<close> are the positions of the joints that are present:
  each is null only when the nose, both shoulders, or both hips are missing.
\<close>

theorem extractFrameFeatures_low_visibility:
  assumes "avgVis (pushupKeyJoints lms) < MIN_VIS_BODY"
  shows "\<exists>ff. extractFrameFeatures lms t = Inr ff \<and> t_sec ff = t
           \<and> elbowAngle ff = None \<and> hipAngle ff = None
           \<and> headY ff = map_option lm_y (lms NOSE)
           \<and> shoulderY ff = avg (map_option lm_y (lms L_SHOULDER)) (map_option lm_y (lms R_SHOULDER))
           \<and> hipY ff = avg (map_option lm_y (lms L_HIP)) (map_option lm_y (lms R_HIP))
           \<and> (headY ff = None \<longleftrightarrow> lms NOSE = None)
           \<and> (shoulderY ff = None \<longleftrightarrow> lms L_SHOULDER = None \<and> lms R_SHOULDER = None)
           \<and> (hipY ff = None \<longleftrightarrow> lms L_HIP = None \<and> lms R_HIP = None)"
  using assms by (simp add: extractFrameFeatures_def Let_def avg_None_iff)

lemma dim_avgVis: "avgVis (pushupKeyJoints dimFrameLandmarks) < MIN_VIS_BODY"
  by (simp add: avgVis_def pushupKeyJoints_def dimFrameLandmarks_def lmk_def)

theorem extractFrameFeatures_low_visibility_witness:
  "avgVis (pushupKeyJoints dimFrameLandmarks) < MIN_VIS_BODY
   \<and> extractFrameFeatures dimFrameLandmarks 1 =
       Inr \<lparr>t_sec = 1, elbowAngle = None, hipAngle = None, headY = Some 0.2,
            shoulderY = Some 0.3, hipY = Some 0.6\<rparr>"
proof -
  obtain ff where ff: "extractFrameFeatures dimFrameLandmarks 1 = Inr ff" "t_sec ff = 1"
     "elbowAngle ff = None" "hipAngle ff = None" 
     "headY ff = map_option lm_y (dimFrameLandmarks NOSE)"
     "shoulderY ff = avg (map_option lm_y (dimFrameLandmarks L_SHOULDER)) (map_option lm_y (dimFrameLandmarks R_SHOULDER))"
     "hipY ff = avg (map_option lm_y (dimFrameLandmarks L_HIP)) (map_option lm_y (dimFrameLandmarks R_HIP))"
    using extractFrameFeatures_low_visibility [OF dim_avgVis, of 1] by blast
  have "ff = \<lparr>t_sec = 1, elbowAngle = None, hipAngle = None, headY = Some 0.2,
            shoulderY = Some 0.3, hipY = Some 0.6\<rparr>"
    using ff(2-) by (cases ff) (simp add: dimFrameLandmarks_def lmk_def avg_def)
  with ff(1) dim_avgVis show ?thesis by simp
qed

text \<open>
  Past the gate the extractor calls \<^verbatim>\<open>angleDegrees\<close> on the joints as read, with no
  check that they are there (the squat detector has one): a frame that passes the gate
  with a joint missing raises a TypeError.
\<close>

lemma extractFrameFeatures_absent_joint:
  "\<not> avgVis (pushupKeyJoints lms) < MIN_VIS_BODY \<Longrightarrow> lms L_SHOULDER = None \<Longrightarrow>
   extractFrameFeatures lms t = Inl TypeError"
  by (simp add: extractFrameFeatures_def angleDegrees_of_def Let_def)

section \<open>The validator\<close>

lemma fold_min_Min: "fold min es (e::real) = Min (set (e # es))"
  by (simp only: Min.set_eq_fold)

lemma fold_max_Max: "fold max es (e::real) = Max (set (e # es))"
  by (simp only: Max.set_eq_fold)

text \<open>
  Claim C3. A buffer whose non-null elbow angles span less than 40 degrees (maximum minus
  minimum) is rejected by \<^verbatim>\<open>repIsValid\<close>, however many frames it holds; a buffer with no
  elbow angle at all is rejected as well.
\<close>

theorem repIsValid_small_range_rejected:
  assumes "elbowAngles fs = [] \<or>
           Max (set (elbowAngles fs)) - Min (set (elbowAngles fs)) < MIN_ANGLE_DELTA"
  shows "\<not> repIsValid fs"
proof (cases "elbowAngles fs")
  case Nil
  then show ?thesis by (simp add: repIsValid_def)
next
  case (Cons e es)
  with assms have "fold max es e - fold min es e < MIN_ANGLE_DELTA"
    by (simp only: fold_min_Min fold_max_Max) simp
  with Cons show ?thesis by (simp add: repIsValid_def Let_def)
qed

theorem repIsValid_small_range_rejected_witness:
  "Max (set (elbowAngles shallowRep)) - Min (set (elbowAngles shallowRep)) < MIN_ANGLE_DELTA
   \<and> length (elbowAngles shallowRep) = 8 \<and> \<not> repIsValid shallowRep"
proof -
  have e: "elbowAngles shallowRep = [170, 165, 155, 145, 140, 150, 160, 170]"
    by (simp add: elbowAngles_def shallowRep_def frame_def)
  have h: "Max (set (elbowAngles shallowRep)) - Min (set (elbowAngles shallowRep)) < MIN_ANGLE_DELTA"
    unfolding e by simp
  show ?thesis using h e repIsValid_small_range_rejected [of shallowRep] by simp
qed

section \<open>The hand tracker\<close>

lemma trackHandY_absent:
  "lms (if hand = LEFT then L_WRIST else R_WRIST) = None \<Longrightarrow> trackHandY now lms hand = []"
  by (simp add: trackHandY_def)

lemma trackHandY_present:
  "lms (if hand = LEFT then L_WRIST else R_WRIST) = Some w \<Longrightarrow>
   trackHandY now lms hand =
     (if (case visibility w of None \<Rightarrow> 0 | Some v \<Rightarrow> v) < MIN_VIS_BODY then []
      else [HandYUpdate hand (1 - max 0 (min 1 (lm_y w))) now])"
  by (simp add: trackHandY_def Let_def)

lemma axis_value_antimono: "(u::real) \<le> u' \<Longrightarrow> 1 - max 0 (min 1 u') \<le> 1 - max 0 (min 1 u)"
  by (simp add: max_def min_def)

lemma trackHandY_emitted:
  assumes "HandYUpdate h y ts \<in> set (trackHandY now lms hand)"
  shows "\<exists>w v. lms (if hand = LEFT then L_WRIST else R_WRIST) = Some w
           \<and> visibility w = Some v \<and> v \<ge> MIN_VIS_BODY
           \<and> y = 1 - max 0 (min 1 (lm_y w)) \<and> 0 \<le> y \<and> y \<le> 1
           \<and> trackHandY now lms hand = [HandYUpdate hand y now]"
proof (cases "lms (if hand = LEFT then L_WRIST else R_WRIST)")
  case None
  from trackHandY_absent [where lms=lms and hand=hand and now=now, OF None] assms show ?thesis by simp
next
  case (Some w)
  note p = trackHandY_present [where lms=lms and hand=hand and w=w and now=now, OF Some]
  show ?thesis
  proof (cases "visibility w")
    case None
    with p assms show ?thesis by simp
  next
    case (Some v)
    show ?thesis
    proof (cases "v < MIN_VIS_BODY")
      case True
      with p Some assms show ?thesis by simp
    next
      case False
      with p Some have e: "trackHandY now lms hand = [HandYUpdate hand (1 - max 0 (min 1 (lm_y w))) now]"
        by simp
      with assms have y: "y = 1 - max 0 (min 1 (lm_y w))" by simp
      have r: "0 \<le> 1 - max 0 (min 1 (lm_y w)) \<and> 1 - max 0 (min 1 (lm_y w)) \<le> 1" by simp
      from False have v: "v \<ge> MIN_VIS_BODY" by simp
      show ?thesis
        using \<open>lms (if hand = LEFT then L_WRIST else R_WRIST) = Some w\<close> Some v y r e by blast
    qed
  qed
qed

text \<open>
  Claim C8. An axis update is dispatched only for a wrist that is present with visibility
  at least 0.4; it is the only event of the frame, its value is \<open>1 - clamp(wristY, 0, 1)\<close>
  and lies in \<open>[0, 1]\<close>; of two frames, the one with the larger raw wrist y never has the
  larger value.
\<close>

theorem trackHandY_axis:
  "(\<forall>h y ts. HandYUpdate h y ts \<in> set (trackHandY now lms hand) \<longrightarrow>
      (\<exists>w v. lms (if hand = LEFT then L_WRIST else R_WRIST) = Some w
           \<and> visibility w = Some v \<and> v \<ge> MIN_VIS_BODY
           \<and> y = 1 - max 0 (min 1 (lm_y w)) \<and> 0 \<le> y \<and> y \<le> 1
           \<and> trackHandY now lms hand = [HandYUpdate hand y now]))
   \<and> (\<forall>lms' now' w w' y y'.
        lms (if hand = LEFT then L_WRIST else R_WRIST) = Some w \<and>
        lms' (if hand = LEFT then L_WRIST else R_WRIST) = Some w' \<and>
        trackHandY now lms hand = [HandYUpdate hand y now] \<and>
        trackHandY now' lms' hand = [HandYUpdate hand y' now'] \<and>
        lm_y w \<le> lm_y w' \<longrightarrow> y' \<le> y)"
proof (intro conjI allI impI)
  fix h y ts
  assume "HandYUpdate h y ts \<in> set (trackHandY now lms hand)"
  then show "\<exists>w v. lms (if hand = LEFT then L_WRIST else R_WRIST) = Some w
           \<and> visibility w = Some v \<and> v \<ge> MIN_VIS_BODY
           \<and> y = 1 - max 0 (min 1 (lm_y w)) \<and> 0 \<le> y \<and> y \<le> 1
           \<and> trackHandY now lms hand = [HandYUpdate hand y now]"
    by (rule trackHandY_emitted)
next
  fix lms' now' w w' y y'
  assume a: "lms (if hand = LEFT then L_WRIST else R_WRIST) = Some w \<and>
        lms' (if hand = LEFT then L_WRIST else R_WRIST) = Some w' \<and>
        trackHandY now lms hand = [HandYUpdate hand y now] \<and>
        trackHandY now' lms' hand = [HandYUpdate hand y' now'] \<and>
        lm_y w \<le> lm_y w'"
  then have w: "lms (if hand = LEFT then L_WRIST else R_WRIST) = Some w"
    and w': "lms' (if hand = LEFT then L_WRIST else R_WRIST) = Some w'"
    and e: "trackHandY now lms hand = [HandYUpdate hand y now]"
    and e': "trackHandY now' lms' hand = [HandYUpdate hand y' now']"
    and le: "lm_y w \<le> lm_y w'" by simp_all
  from e trackHandY_present [where lms=lms and hand=hand and w=w and now=now, OF w] have "y = 1 - max 0 (min 1 (lm_y w))"
    by (simp split: if_splits)
  moreover from e' trackHandY_present [where lms=lms' and hand=hand and w=w' and now=now', OF w'] have "y' = 1 - max 0 (min 1 (lm_y w'))"
    by (simp split: if_splits)
  ultimately show "y' \<le> y" using axis_value_antimono [OF le] by simp
qed

theorem trackHandY_axis_witness:
  "trackHandY 5 raisedHand RIGHT = [HandYUpdate RIGHT 0.75 5]
   \<and> trackHandY 9 loweredHand RIGHT = [HandYUpdate RIGHT 0 9]
   \<and> (0::real) \<le> 0.75 \<and> (0::real) \<le> 0.75 \<and> (0.75::real) \<le> 1"
proof -
  have a: "trackHandY 5 raisedHand RIGHT = [HandYUpdate RIGHT 0.75 5]"
    by (simp add: trackHandY_def raisedHand_def lmk_def Let_def)
  have b: "trackHandY 9 loweredHand RIGHT = [HandYUpdate RIGHT 0 9]"
    by (simp add: trackHandY_def loweredHand_def lmk_def Let_def)
  have "HandYUpdate RIGHT 0.75 5 \<in> set (trackHandY 5 raisedHand RIGHT)" using a by simp
  with trackHandY_axis [of 5 raisedHand RIGHT] have "(0::real) \<le> 0.75 \<and> (0.75::real) \<le> 1"
    by blast
  with a b show ?thesis by simp
qed

section \<open>Runs of the push-up machine\<close>

lemmas input_defs = topFrame_def standingFrame_def lowVisFrame_def frame_def threeTops_def
  startedRefs_def descent_def cleanRep_def interruptedStart_def interruptedRep_def goodRep_def
  initialRefs_def

lemmas pushup_defs = updatePushupState_def pushupSwitch_def Let_def

lemma threeTops_run: "pushupRun tm initialRefs threeTops = (startedRefs, [])"
  by (simp add: input_defs pushup_defs)

lemma goodRep_valid: "repIsValid goodRep"
  by (simp add: input_defs repIsValid_def elbowAngles_def)

lemma goodRep_score: "scoreRep None goodRep = Num 92.5"
  by (simp add: input_defs scoreRep_def elbowAngles_def hipAngles_def Let_def)

lemma pushupRun_append:
  "pushupRun tm r (xs @ ys) =
     (case pushupRun tm r xs of (r1, e1) \<Rightarrow>
        (case pushupRun tm r1 ys of (r2, e2) \<Rightarrow> (r2, e1 @ e2)))"
  by (induction xs arbitrary: r) (auto split: prod.splits)

lemma descent_run:
  "pushupRun tm startedRefs descent =
     (startedRefs\<lparr>pushupStateRef := GOING_UP, currentRepRef := topFrame 3 # map snd descent\<rparr>, [])"
  by (simp add: input_defs pushup_defs)

lemma closing_step:
  "updatePushupState tm 8000
     (startedRefs\<lparr>pushupStateRef := GOING_UP, currentRepRef := topFrame 3 # map snd descent\<rparr>)
     (topFrame 8) =
   (startedRefs\<lparr>currentRepRef := [topFrame 8],
       completedRepsRef := [\<lparr>features = goodRep, correctness = scoreRep tm goodRep\<rparr>]\<rparr>,
    [PushupCompleted (scoreRep tm goodRep) 1 8000])"
  by (simp add: input_defs pushup_defs repIsValid_def elbowAngles_def)

lemma cleanRep_run:
  "pushupRun tm initialRefs cleanRep =
   (startedRefs\<lparr>currentRepRef := [topFrame 8],
       completedRepsRef := [\<lparr>features = goodRep, correctness = scoreRep tm goodRep\<rparr>]\<rparr>,
    [PushupCompleted (scoreRep tm goodRep) 1 8000])"
  unfolding cleanRep_def pushupRun_append
  by (simp add: threeTops_run descent_run closing_step)

lemma interruptedStart_run: "pushupRun tm initialRefs interruptedStart = (startedRefs, [])"
  by (simp add: input_defs pushup_defs)

lemma interruptedRep_run:
  "pushupRun tm initialRefs interruptedRep =
   (startedRefs\<lparr>currentRepRef := [topFrame 8],
       completedRepsRef := [\<lparr>features = goodRep, correctness = scoreRep tm goodRep\<rparr>]\<rparr>,
    [PushupCompleted (scoreRep tm goodRep) 1 8000])"
  unfolding interruptedRep_def pushupRun_append
  by (simp add: interruptedStart_run descent_run closing_step)

lemma percentOf_range: "percentOf z n = Num s \<Longrightarrow> 0 \<le> s \<and> s \<le> 100"
  by (auto simp: percentOf_def Let_def split: js_number.splits if_splits)

lemma scoreRep_number_range: "scoreRep tm fs = Num s \<Longrightarrow> 0 \<le> s \<and> s \<le> 100"
  by (auto simp: scoreRep_def Let_def dest: percentOf_range split: option.splits list.splits if_splits)

lemma scoreRep_rule_based: "\<exists>s. scoreRep None fs = Num s \<and> 0 \<le> s \<and> s \<le> 100"
proof -
  have "\<exists>s. scoreRep None fs = Num s"
    by (simp add: scoreRep_def Let_def split: list.splits)
  then obtain s where "scoreRep None fs = Num s" ..
  with scoreRep_number_range [OF this] show ?thesis by blast
qed

text \<open>
  A template with at least one phase and a mean for every phase gives a number.
\<close>

lemma zLoop_number:
  "i + length reps \<le> length (mean (elbow tm)) \<Longrightarrow> i + length reps \<le> length (mean (hip tm)) \<Longrightarrow>
   \<exists>z. zLoop tm reps i (Num a) = Num z"
  by (induction reps arbitrary: i a) (simp_all add: zscore_def Let_def)

lemma length_resampleRep: "fs \<noteq> [] \<Longrightarrow> length (resampleRep fs n) = nat n"
  by (cases fs) (simp_all add: resampleRep_def Let_def)

lemma scoreRep_template_number:
  assumes "fs \<noteq> []" and "1 \<le> phaseCount tm"
    and "nat (phaseCount tm) \<le> length (mean (elbow tm))"
    and "nat (phaseCount tm) \<le> length (mean (hip tm))"
  shows "\<exists>s. scoreRep (Some tm) fs = Num s \<and> 0 \<le> s \<and> s \<le> 100"
proof -
  let ?reps = "resampleRep fs (phaseCount tm)"
  have l: "length ?reps = nat (phaseCount tm)" using assms(1) by (rule length_resampleRep)
  with assms obtain z where z: "zLoop tm ?reps 0 (Num 0) = Num z"
    using zLoop_number [of 0 ?reps tm 0] by auto
  have "\<exists>s. scoreRep (Some tm) fs = Num s"
    using l z assms(2) by (simp add: scoreRep_def percentOf_def Let_def)
  then obtain s where "scoreRep (Some tm) fs = Num s" ..
  with scoreRep_number_range [OF this] show ?thesis by blast
qed

section \<open>The start debounce\<close>

text \<open>
  Claim C1. The claim says that the machine stays in \<open>WAITING_FOR_START\<close> and emits
  nothing unless it sees three qualifying frames in a row, and that every non-qualifying
  frame resets the streak. The code resets the streak on a frame without angles and on a
  lying frame that is not at the top, but a frame that fails the posture gate returns
  with the streak kept. On \<open>interruptedRep\<close>, which has no three qualifying frames in a
  row, the streak is 2 before and after the standing frame, the fourth frame moves the
  machine to \<open>AT_TOP\<close>, and the run ends with a completed repetition.
\<close>

theorem pushup_start_without_three_consecutive_tops:
  "\<not> threeInARow qualifiesAtTop (map snd interruptedRep)
   \<and> \<not> qualifiesAtTop (standingFrame 2)
   \<and> topStreakRef (fst (pushupRun None initialRefs (take 2 interruptedRep))) = 2
   \<and> topStreakRef (fst (pushupRun None initialRefs (take 3 interruptedRep))) = 2
   \<and> pushupStateRef (fst (pushupRun None initialRefs (take 4 interruptedRep))) = AT_TOP
   \<and> snd (pushupRun None initialRefs interruptedRep) = [PushupCompleted (Num 92.5) 1 8000]"
proof -
  have 1: "\<not> threeInARow qualifiesAtTop (map snd interruptedRep)"
    by (simp add: input_defs qualifiesAtTop_def)
  have 2: "\<not> qualifiesAtTop (standingFrame 2)"
    by (simp add: input_defs qualifiesAtTop_def)
  have 3: "topStreakRef (fst (pushupRun None initialRefs (take 2 interruptedRep))) = 2"
    by (simp add: input_defs pushup_defs)
  have 4: "topStreakRef (fst (pushupRun None initialRefs (take 3 interruptedRep))) = 2"
    by (simp add: input_defs pushup_defs)
  have "take 4 interruptedRep = interruptedStart"
    by (simp add: interruptedRep_def interruptedStart_def)
  then have 5: "pushupStateRef (fst (pushupRun None initialRefs (take 4 interruptedRep))) = AT_TOP"
    by (simp add: interruptedStart_run startedRefs_def)
  have 6: "snd (pushupRun None initialRefs interruptedRep) = [PushupCompleted (Num 92.5) 1 8000]"
    by (simp add: interruptedRep_run goodRep_score)
  from 1 2 3 4 5 6 show ?thesis by blast
qed

section \<open>The posture gate\<close>

text \<open>
  Claim C2, as amended. In every state other than \<open>WAITING_FOR_START\<close>, a frame with both
  angles and both positions present and \<open>|shoulderY - hipY| > 0.3\<close> puts the machine back
  to \<open>WAITING_FOR_START\<close> with an empty buffer and a zero streak; the log of completed
  repetitions is unchanged and no event is dispatched.
\<close>

theorem pushup_posture_break_resets:
  assumes "pushupStateRef r \<noteq> WAITING_FOR_START"
    and "elbowAngle f = Some ea" and "hipAngle f = Some ha"
    and "shoulderY f = Some sy" and "hipY f = Some hy"
    and "\<bar>sy - hy\<bar> > HORIZONTAL_BODY_MAX_DELTA_Y"
  shows "updatePushupState tm now r f =
           (r\<lparr>pushupStateRef := WAITING_FOR_START, currentRepRef := [], topStreakRef := 0\<rparr>, [])"
  using assms by (simp add: updatePushupState_def Let_def)

theorem pushup_posture_break_resets_witness:
  "pushupStateRef startedRefs \<noteq> WAITING_FOR_START
   \<and> \<bar>0.2 - 0.8\<bar> > HORIZONTAL_BODY_MAX_DELTA_Y
   \<and> updatePushupState None 4000 startedRefs (standingFrame 4) = (initialRefs, [])"
proof -
  have s: "pushupStateRef startedRefs \<noteq> WAITING_FOR_START"
    by (simp add: startedRefs_def)
  have d: "\<bar>0.2 - 0.8\<bar> > HORIZONTAL_BODY_MAX_DELTA_Y" by simp
  have "updatePushupState None 4000 startedRefs (standingFrame 4) =
          (startedRefs\<lparr>pushupStateRef := WAITING_FOR_START, currentRepRef := [],
             topStreakRef := 0\<rparr>, [])"
    using pushup_posture_break_resets [OF s _ _ _ _ d, of "standingFrame 4" 170 170 None 4000]
    by (simp add: standingFrame_def frame_def)
  then show ?thesis using s d by (simp add: startedRefs_def initialRefs_def)
qed

text \<open>
  The claim as stated fails on a frame that has the two positions but no angles (what
  the extractor returns below the visibility gate): the angle check comes first and
  returns, so the machine stays in \<open>AT_TOP\<close> with its buffer and streak.
\<close>

theorem pushup_posture_break_ignored_without_angles:
  "pushupRun None initialRefs threeTops = (startedRefs, [])
   \<and> pushupStateRef startedRefs = AT_TOP
   \<and> shoulderY (lowVisFrame 4) = Some 0.1 \<and> hipY (lowVisFrame 4) = Some 0.9
   \<and> \<bar>0.1 - 0.9\<bar> > HORIZONTAL_BODY_MAX_DELTA_Y
   \<and> updatePushupState None 4000 startedRefs (lowVisFrame 4) = (startedRefs, [])
   \<and> currentRepRef startedRefs = [topFrame 3] \<and> topStreakRef startedRefs = 3"
  by (simp add: threeTops_run) (simp add: updatePushupState_def lowVisFrame_def startedRefs_def)

section \<open>The repetition buffer holds fully angled frames\<close>

lemma pushupSwitch_invariant:
  "bufferInvariant r \<Longrightarrow> fullyAngled f \<Longrightarrow> bufferInvariant (fst (pushupSwitch tm now r f ea ha))"
  by (cases "pushupStateRef r") (simp_all add: pushupSwitch_def Let_def bufferInvariant_def)

lemma updatePushupState_invariant:
  "bufferInvariant r \<Longrightarrow> bufferInvariant (fst (updatePushupState tm now r f))"
proof (cases "fullyAngled f")
  case True
  assume "bufferInvariant r"
  from True obtain ea ha sy hy where
    f: "elbowAngle f = Some ea" "hipAngle f = Some ha" "shoulderY f = Some sy" "hipY f = Some hy"
    by (auto simp: fullyAngled_def)
  show ?thesis
    using \<open>bufferInvariant r\<close> pushupSwitch_invariant [OF \<open>bufferInvariant r\<close> True, of tm now ea ha]
    by (simp add: updatePushupState_def Let_def f) (simp add: bufferInvariant_def)
next
  case False
  assume "bufferInvariant r"
  then show ?thesis using False
    by (auto simp: updatePushupState_def Let_def fullyAngled_def bufferInvariant_def
        split: option.splits)
qed

lemma updatePushupState_skips:
  "\<not> fullyAngled f \<Longrightarrow>
   currentRepRef (fst (updatePushupState tm now r f)) = currentRepRef r
   \<and> completedRepsRef (fst (updatePushupState tm now r f)) = completedRepsRef r
   \<and> pushupStateRef (fst (updatePushupState tm now r f)) = pushupStateRef r
   \<and> snd (updatePushupState tm now r f) = []"
  by (auto simp: updatePushupState_def Let_def fullyAngled_def split: option.splits)

lemma pushupRun_invariant:
  "bufferInvariant r \<Longrightarrow> bufferInvariant (fst (pushupRun tm r frames))"
proof (induction frames arbitrary: r)
  case Nil
  then show ?case by simp
next
  case (Cons x frames)
  obtain now f where x: "x = (now, f)" by (cases x)
  obtain r1 e1 where s: "updatePushupState tm now r f = (r1, e1)" by (cases "updatePushupState tm now r f")
  from updatePushupState_invariant [OF Cons.prems, of tm now f] s have "bufferInvariant r1" by simp
  from Cons.IH [OF this] show ?case by (auto simp: x s split: prod.splits)
qed

lemma initialRefs_invariant: "bufferInvariant initialRefs"
  by (simp add: bufferInvariant_def initialRefs_def)

text \<open>
  Claim C10. After any sequence of frames from the initial state, every frame in the
  in-progress buffer is fully angled, and so is every frame of every buffer that was
  validated, scored and logged. A frame that lacks one of the four fields leaves the
  buffer and the log as they are and dispatches nothing: the machine returns before any
  write of the buffer.
\<close>

theorem pushup_buffer_fully_angled:
  "list_all fullyAngled (currentRepRef (fst (pushupRun tm initialRefs frames)))
   \<and> list_all (\<lambda>c. list_all fullyAngled (features c))
        (completedRepsRef (fst (pushupRun tm initialRefs frames)))
   \<and> (\<not> fullyAngled f \<longrightarrow>
        currentRepRef (fst (updatePushupState tm now r f)) = currentRepRef r
        \<and> completedRepsRef (fst (updatePushupState tm now r f)) = completedRepsRef r
        \<and> snd (updatePushupState tm now r f) = [])"
  using pushupRun_invariant [OF initialRefs_invariant, of tm frames] updatePushupState_skips [of f tm now r]
  by (simp add: bufferInvariant_def)

theorem pushup_buffer_fully_angled_witness:
  "list_all fullyAngled (currentRepRef (fst (pushupRun None initialRefs cleanRep)))
   \<and> currentRepRef (fst (pushupRun None initialRefs cleanRep)) = [topFrame 8]
   \<and> list_all fullyAngled goodRep
   \<and> \<not> fullyAngled (lowVisFrame 4)
   \<and> currentRepRef (fst (updatePushupState None 4000 startedRefs (lowVisFrame 4))) = [topFrame 3]"
proof -
  have n: "\<not> fullyAngled (lowVisFrame 4)" by (simp add: fullyAngled_def lowVisFrame_def)
  have c: "completedRepsRef (fst (pushupRun None initialRefs cleanRep)) =
             [\<lparr>features = goodRep, correctness = scoreRep None goodRep\<rparr>]"
    by (simp add: cleanRep_run)
  have b: "currentRepRef (fst (pushupRun None initialRefs cleanRep)) = [topFrame 8]"
    by (simp add: cleanRep_run)
  have s: "currentRepRef startedRefs = [topFrame 3]" by (simp add: startedRefs_def)
  show ?thesis
    using pushup_buffer_fully_angled [of None cleanRep "lowVisFrame 4" 4000 startedRefs] n c b s
    by simp
qed

section \<open>The score\<close>

text \<open>
  Claim C4. The rule-based score is a number in \<open>[0, 100]\<close> (\<open>scoreRep_rule_based\<close>), and
  so is every template score that is a number (\<open>scoreRep_number_range\<close>). With a template
  of zero phases the resampled repetition has the expected length 0, the loop adds
  nothing, and the average is \<^verbatim>\<open>0 / 0\<close>: the score of a valid repetition is NaN, which
  the clamp \<^verbatim>\<open>Math.max(0, Math.min(100, raw))\<close> lets through, and NaN is logged and
  dispatched.
\<close>

theorem scoreRep_empty_template_not_a_number:
  "repIsValid goodRep
   \<and> scoreRep (Some emptyTemplate) goodRep = NaN
   \<and> pushupRun (Some emptyTemplate) initialRefs cleanRep =
       (startedRefs\<lparr>currentRepRef := [topFrame 8],
           completedRepsRef := [\<lparr>features = goodRep, correctness = NaN\<rparr>]\<rparr>,
        [PushupCompleted NaN 1 8000])"
proof -
  have n: "scoreRep (Some emptyTemplate) goodRep = NaN"
    by (simp add: scoreRep_def emptyTemplate_def resampleRep_def goodRep_def percentOf_def Let_def)
  show ?thesis using goodRep_valid n cleanRep_run [of "Some emptyTemplate"] by simp
qed

section \<open>Squat acceptance\<close>

lemma hypot_vertical: "hypot 0 b = \<bar>b\<bar>"
  by (simp add: hypot_def)

lemma uprightLegs_visible: "\<not> avgVis (squatKeyJoints uprightLegs) < MIN_VIS_BODY"
  by (simp add: avgVis_def squatKeyJoints_def uprightLegs_def lmk_def)

lemma uprightLegs_angle: "squatKneeAngle uprightLegs = Some 180"
  by (simp add: squatKneeAngle_def guardedAngle_def uprightLegs_def lmk_def angleDegreesExact_def
      hypot_vertical Let_def)

lemma squatAccepted_iff:
  "squatAccepted angles \<longleftrightarrow>
     length angles \<ge> SQUAT_MIN_VALID_FRAMES
     \<and> Max (set angles) - Min (set angles) \<ge> SQUAT_MIN_ANGLE_DELTA
     \<and> Min (set angles) \<le> 105"
proof (cases angles)
  case Nil
  then show ?thesis by (simp add: squatAccepted_def)
next
  case (Cons a as)
  have "fold min as a = Min (set angles)" "fold max as a = Max (set angles)"
    unfolding Cons by (simp_all only: Min.set_eq_fold Max.set_eq_fold)
  then show ?thesis
    using Cons by (auto simp: squatAccepted_def Let_def)
qed

text \<open>
  Claim C7. When a frame with knee angle \<open>k\<close> of at least 165 degrees arrives in
  \<open>GOING_UP\<close>, the cycle is closed on the buffer with \<open>k\<close> appended: the repetition is
  logged exactly when that buffer has at least 6 angles, a range of at least 35 degrees
  and a minimum of at most 105 degrees, and then with correctness 100 and one
  \<^verbatim>\<open>squatCompleted\<close> event; either way the machine goes to \<open>STANDING\<close> with the buffer
  reseeded by \<open>k\<close>.
\<close>

theorem squat_cycle_acceptance:
  assumes "squatStateRef r = SQ_GOING_UP"
    and "\<not> avgVis (squatKeyJoints lms) < MIN_VIS_BODY"
    and "squatKneeAngle lms = Some k"
    and "k \<ge> SQUAT_KNEE_TOP_ANGLE"
  shows "updateSquatState now r lms t =
           (if length (squatCurrentRepAnglesRef r @ [k]) \<ge> 6
               \<and> Max (set (squatCurrentRepAnglesRef r @ [k])) - Min (set (squatCurrentRepAnglesRef r @ [k])) \<ge> 35
               \<and> Min (set (squatCurrentRepAnglesRef r @ [k])) \<le> 105
            then (r\<lparr>squatStateRef := STANDING, squatCurrentRepAnglesRef := [k],
                    completedRepsRef := completedRepsRef r @ [\<lparr>features = [], correctness = Num 100\<rparr>]\<rparr>,
                  [SquatCompleted (Suc (length (completedRepsRef r))) now])
            else (r\<lparr>squatStateRef := STANDING, squatCurrentRepAnglesRef := [k]\<rparr>, []))"
proof -
  have a: "squatAccepted (squatCurrentRepAnglesRef r @ [k]) \<longleftrightarrow>
        length (squatCurrentRepAnglesRef r @ [k]) \<ge> 6
        \<and> Max (set (squatCurrentRepAnglesRef r @ [k])) - Min (set (squatCurrentRepAnglesRef r @ [k])) \<ge> 35
        \<and> Min (set (squatCurrentRepAnglesRef r @ [k])) \<le> 105"
    by (rule squatAccepted_iff)
  show ?thesis
    unfolding a [symmetric]
    using assms by (simp add: updateSquatState_def squatSwitch_def Let_def)
qed

theorem squat_cycle_acceptance_witness:
  "updateSquatState 9000 risingSquat uprightLegs 9 =
     (initialRefs\<lparr>squatStateRef := STANDING, squatCurrentRepAnglesRef := [180],
        squatTopStreakRef := 3,
        completedRepsRef := [\<lparr>features = [], correctness = Num 100\<rparr>]\<rparr>,
      [SquatCompleted 1 9000])
   \<and> updateSquatState 9000 quickSquat uprightLegs 9 =
     (initialRefs\<lparr>squatStateRef := STANDING, squatCurrentRepAnglesRef := [180],
        squatTopStreakRef := 3\<rparr>, [])"
proof -
  have s: "squatStateRef risingSquat = SQ_GOING_UP" "squatStateRef quickSquat = SQ_GOING_UP"
    by (simp_all add: risingSquat_def quickSquat_def)
  have k: "(180::real) \<ge> SQUAT_KNEE_TOP_ANGLE" by simp
  show ?thesis
    using squat_cycle_acceptance [OF s(1) uprightLegs_visible uprightLegs_angle k, of 9000 9]
          squat_cycle_acceptance [OF s(2) uprightLegs_visible uprightLegs_angle k, of 9000 9]
    by (simp add: risingSquat_def quickSquat_def initialRefs_def)
qed

section \<open>Events and the session log\<close>










end
